theory Spec2Isabelle
  imports Main "HOL-Library.Word"
begin

section \<open>Go values shared by the three source files\<close>

text \<open>
  A Go \<open>error\<close> value is identified by its message. A function that can also panic
  returns a \<open>result\<close>: either what it returned, or the panic.
\<close>

datatype error = Error string

datatype 'a result = Return 'a | Panic string

text \<open>
  Decimal rendering of an integer, as \<open>%d\<close> and \<open>strconv.Itoa\<close> print it, and
  \<open>%v\<close> of a boolean.
\<close>

fun digits :: "nat \<Rightarrow> string" where
  "digits n =
     (if n < 10 then [''0123456789'' ! n]
      else digits (n div 10) @ [''0123456789'' ! (n mod 10)])"

declare digits.simps [simp del]

definition Itoa :: "int \<Rightarrow> string" where
  "Itoa i = (if i < 0 then ''-'' @ digits (nat (- i)) else digits (nat i))"

definition fmtBool :: "bool \<Rightarrow> string" where
  "fmtBool b = (if b then ''true'' else ''false'')"

text \<open>
  \<open>logger.Message\<close>: the line and its source tag (\<open>stdout\<close>, \<open>stderr\<close> or \<open>event\<close>).
\<close>

record Message =
  Line :: string
  Source :: string

text \<open>
  \<open>libcontainerd.StateInfo\<close>, the notification the execution engine sends. Its declaration
  is outside the three files; the fields are the ones \<open>StateChanged\<close> reads. \<open>Pid\<close> and
  \<open>ExitCode\<close> are unsigned 32-bit values that the handler widens with \<open>int(...)\<close>.
  A state kind that no case of the handler's switch names is \<open>StateOther\<close>.
\<close>

datatype State =
    StateStart | StatePause | StateResume | StateExit | StateRestart
  | StateRestore | StateExitProcess | StateOOM | StateOther string

record StateInfo =
  State :: State
  Pid :: "32 word"
  ExitCode :: "32 word"
  ProcessID :: string
  OOMKilled :: bool

text \<open>
  The priorities of \<open>go-systemd/journal\<close>, in the order of their declaration.
\<close>

datatype Priority =
    PriEmerg | PriAlert | PriCrit | PriErr | PriWarning | PriNotice | PriInfo | PriDebug

text \<open>
  Calls that leave the three files are recorded, in the order they are made: the journal
  socket, the daemon's own diagnostic log (\<open>logrus\<close>, with the format string and its
  arguments), and the container and daemon methods that the handler invokes. Containers
  are named by their registry id, log drivers and exec configurations by their address.
\<close>

datatype arg = AStr string | ABool bool | AErr error | AInfo StateInfo

datatype call =
    CallSend string Priority "string \<rightharpoonup> string"
  | CallErrorf string "arg list"
  | CallWarnf string "arg list"
  | CallLock string
  | CallUnlock string
  | CallWait string
  | CallReset string bool
  | CallLog nat Message
  | CallSetStopped string StateInfo
  | CallSetRestarting string StateInfo
  | CallSetRunning string "64 word" bool
  | CallLogContainerEvent string string
  | CallLogContainerEventWithAttributes string string "(string \<times> string) list"
  | CallCleanup string
  | CallToDisk string
  | CallExecWait nat
  | CallExecCloseStreams nat

section \<open>The rate limiter (\<open>rateLimit\<close>, \<open>Check\<close>)\<close>

text \<open>
  A \<open>time.Time\<close> is a point on the nanosecond time line, counted from the zero instant
  that \<open>IsZero\<close> recognises; a \<open>time.Duration\<close> is a signed 64-bit count of
  nanoseconds. Go's \<open>int\<close> is the 64-bit signed integer of the linux/amd64 build:
  a \<open>64 word\<close> compared with \<open><s\<close>.
\<close>

type_synonym Time = int

type_synonym Duration = "64 word"

definition IsZero :: "Time \<Rightarrow> bool" where
  "IsZero t = (t = 0)"

definition Add :: "Time \<Rightarrow> Duration \<Rightarrow> Time" where
  "Add t d = t + sint d"

definition Before :: "Time \<Rightarrow> Time \<Rightarrow> bool" where
  "Before t u = (t < u)"

record rateLimit =
  Burst :: "64 word"
  Interval :: Duration
  "begin" :: Time
  num :: "64 word"
  suppressed :: "64 word"

text \<open>
  The limiter as the composite literal \<open>&rateLimit{Burst: burst, Interval: interval}\<close>
  builds it: the clock fields are zero.
\<close>

abbreviation unstarted :: "64 word \<Rightarrow> Duration \<Rightarrow> rateLimit" where
  "unstarted b d \<equiv> \<lparr>Burst = b, Interval = d, begin = 0, num = 0, suppressed = 0\<rparr>"

text \<open>
  \<open>Check\<close> reads the clock once; the reading is the argument \<open>now\<close>. It returns
  \<open>(allowed, suppressed)\<close> and the updated limiter.
\<close>

definition Check :: "Time \<Rightarrow> rateLimit \<Rightarrow> (bool \<times> 64 word) \<times> rateLimit" where
  "Check now r =
    (if IsZero (begin r) then
       ((True, 0), r\<lparr>suppressed := 0, num := 1, begin := now\<rparr>)
     else if Before (Add (begin r) (Interval r)) now then
       ((True, suppressed r), r\<lparr>suppressed := 0, num := 1, begin := now\<rparr>)
     else if num r <s Burst r then
       ((True, 0), r\<lparr>num := num r + 1\<rparr>)
     else
       ((False, 0), r\<lparr>suppressed := suppressed r + 1\<rparr>))"

definition Suppressed :: "rateLimit \<Rightarrow> 64 word" where
  "Suppressed r = suppressed r"

text \<open>
  A sequence of \<open>Check\<close> calls on one limiter, one clock reading per call: the results in
  order, and the limiter afterwards.
\<close>

fun Checks :: "Time list \<Rightarrow> rateLimit \<Rightarrow> (bool \<times> 64 word) list \<times> rateLimit" where
  "Checks [] r = ([], r)"
| "Checks (now # nows) r =
     (case Check now r of (res, r1) \<Rightarrow>
        (case Checks nows r1 of (ress, r2) \<Rightarrow> (res # ress, r2)))"

section \<open>The journald driver (\<open>newRateLimit\<close>, \<open>New\<close>, \<open>Log\<close>)\<close>

text \<open>
  \<open>logger.Context\<close>, with the fields the constructor reads.
\<close>

record Context =
  ContainerName :: string
  ContainerID :: string
  ContainerLabels :: "string \<rightharpoonup> string"

text \<open>
  What the driver calls outside the three files: whether the journal socket is there, what
  a \<open>journal.Send\<close> returns, the tag and the extra attributes computed from the context
  (\<open>loggerutils.ParseLogTag\<close>, \<open>ctx.ExtraAttributes(strings.ToTitle)\<close>), and the two
  parsers of the standard library.
\<close>

record externals =
  journal_Enabled :: bool
  journal_Send :: "string \<Rightarrow> Priority \<Rightarrow> (string \<rightharpoonup> string) \<Rightarrow> error option"
  ParseLogTag :: "Context \<Rightarrow> error + string"
  ExtraAttributes :: "Context \<Rightarrow> (string \<rightharpoonup> string)"
  Atoi :: "string \<Rightarrow> error + 64 word"
  ParseDuration :: "string \<Rightarrow> error + Duration"

text \<open>
  The driver. The limiter is owned through a pointer that nothing else holds, so it is a
  field here; \<open>None\<close> is the nil pointer. The \<open>readers\<close> list belongs to the reading
  side of the driver, which is not in these files, and is left out.
\<close>

record journald =
  vars :: "string \<rightharpoonup> string"
  eVars :: "string \<rightharpoonup> string"
  rateLimit :: "rateLimit option"

definition lookupLabel :: "(string \<rightharpoonup> string) \<Rightarrow> string \<Rightarrow> string \<times> bool" where
  "lookupLabel labels k = (case labels k of None \<Rightarrow> ([], False) | Some v \<Rightarrow> (v, True))"

definition newRateLimit ::
  "externals \<Rightarrow> (string \<rightharpoonup> string) \<Rightarrow> call list \<Rightarrow> rateLimit option \<times> call list" where
  \<open>newRateLimit x labels tr =
    (case lookupLabel labels ''com.meteor.galaxy.log-burst'' of (burstLabel, burstExists) \<Rightarrow>
     case lookupLabel labels ''com.meteor.galaxy.log-interval'' of (intervalLabel, intervalExists) \<Rightarrow>
       if \<not> burstExists \<and> \<not> intervalExists then (None, tr)
       else if \<not> burstExists \<or> \<not> intervalExists then
         (None, tr @ [CallErrorf ''only one com.meteor.galaxy.log-* label exists: %v %v''
                        [ABool burstExists, ABool intervalExists]])
       else
         (case Atoi x burstLabel of
            Inl err \<Rightarrow>
              (None, tr @ [CallErrorf ''Couldn't parse com.meteor.galaxy.log-burst '%s': %v''
                             [AStr burstLabel, AErr err]])
          | Inr burst \<Rightarrow>
              (case ParseDuration x intervalLabel of
                 Inl err \<Rightarrow>
                   (None, tr @ [CallErrorf ''Couldn't parse com.meteor.galaxy.log-interval '%s': %v''
                                  [AStr intervalLabel, AErr err]])
               | Inr interval \<Rightarrow>
                   (Some (unstarted burst interval), tr))))\<close>

text \<open>
  \<open>New\<close> indexes the container name and slices the container id without looking at their
  lengths; Go panics when the index or the bound is out of range.
\<close>

definition New ::
  "externals \<Rightarrow> Context \<Rightarrow> call list \<Rightarrow> (error + journald) result \<times> call list" where
  "New x ctx tr =
    (if \<not> journal_Enabled x then
       (Return (Inl (Error ''journald is not enabled on this host'')), tr)
     else
       (case ContainerName ctx of
          [] \<Rightarrow> (Panic ''index out of range'', tr)
        | c # cs \<Rightarrow>
            (let name = (if c = CHR ''/'' then cs else c # cs) in
             case ParseLogTag x ctx of
               Inl err \<Rightarrow> (Return (Inl err), tr)
             | Inr tag \<Rightarrow>
                 if length (ContainerID ctx) < 12 then (Panic ''slice bounds out of range'', tr)
                 else
                   (let vars0 = [''CONTAINER_ID'' \<mapsto> take 12 (ContainerID ctx),
                                 ''CONTAINER_ID_FULL'' \<mapsto> ContainerID ctx,
                                 ''CONTAINER_NAME'' \<mapsto> name,
                                 ''CONTAINER_TAG'' \<mapsto> tag] ++ ExtraAttributes x ctx;
                        eVars0 = [''DOCKER_EVENT'' \<mapsto> ''true''] ++ vars0
                    in case newRateLimit x (ContainerLabels ctx) tr of
                         (rl, tr1) \<Rightarrow>
                           (Return (Inr \<lparr>vars = vars0, eVars = eVars0, rateLimit = rl\<rparr>), tr1)))))"

definition Send ::
  "externals \<Rightarrow> string \<Rightarrow> Priority \<Rightarrow> (string \<rightharpoonup> string) \<Rightarrow> call list \<Rightarrow> error option \<times> call list" where
  "Send x line p vs tr = (journal_Send x line p vs, tr @ [CallSend line p vs])"

definition sendSuppressedMessage ::
  "externals \<Rightarrow> journald \<Rightarrow> 64 word \<Rightarrow> call list \<Rightarrow> error option \<times> call list" where
  \<open>sendSuppressedMessage x s n tr =
     Send x (''{"type":"dropped","lines":'' @ Itoa (sint n) @ ''}'') PriWarning (eVars s) tr\<close>

text \<open>
  \<open>Log\<close> returns its error (or \<open>None\<close> for nil), the driver with its limiter updated, and
  the calls made. The clock reading \<open>now\<close> is the one \<open>Check\<close> takes when it is called.
\<close>

definition forward ::
  "externals \<Rightarrow> journald \<Rightarrow> Message \<Rightarrow> call list \<Rightarrow> (error option \<times> journald) \<times> call list" where
  "forward x s msg tr =
     (if Source msg = ''stderr'' then
        (case Send x (Line msg) PriErr (vars s) tr of (err, tr1) \<Rightarrow> ((err, s), tr1))
      else
        (case Send x (Line msg) PriInfo (vars s) tr of (err, tr1) \<Rightarrow> ((err, s), tr1)))"

definition Log ::
  "externals \<Rightarrow> Time \<Rightarrow> journald \<Rightarrow> Message \<Rightarrow> call list \<Rightarrow> (error option \<times> journald) \<times> call list" where
  \<open>Log x now s msg tr =
    (if Source msg = ''event'' then
       (case Send x (Line msg) PriWarning (eVars s) tr of (err, tr1) \<Rightarrow> ((err, s), tr1))
     else
       (case rateLimit s of
          None \<Rightarrow> forward x s msg tr
        | Some r \<Rightarrow>
            (case Check now r of
               ((allowed, n), r1) \<Rightarrow>
                 (let s1 = s\<lparr>rateLimit := Some r1\<rparr> in
                  if \<not> allowed then ((None, s1), tr)
                  else if 0 <s n then
                    (case sendSuppressedMessage x s1 n tr of
                       (Some err, tr1) \<Rightarrow>
                         forward x s1 msg
                           (tr1 @ [CallErrorf ''Couldn't send suppressed message: %v'' [AErr err]])
                     | (None, tr1) \<Rightarrow> forward x s1 msg tr1)
                  else forward x s1 msg tr))))\<close>

definition Name :: "journald \<Rightarrow> string" where
  "Name s = ''journald''"

section \<open>The daemon's notification handler (\<open>StateChanged\<close>)\<close>

text \<open>
  A container, with the fields the handler reads or assigns. \<open>LogDriver\<close> holds the
  address of the driver, \<open>None\<close> for nil; \<open>ExecCommands\<close> maps a process id to the
  address of its exec configuration.
\<close>

record ExecConfig =
  ExecID :: string
  ExecExitCode :: "64 word option"
  Running :: bool

record Container =
  ID :: string
  LogDriver :: "nat option"
  RestartCount :: "64 word"
  Paused :: bool
  HasBeenManuallyStopped :: bool
  ExecCommands :: "string \<rightharpoonup> nat"

record daemon =
  containers :: "string \<rightharpoonup> Container"
  execs :: "nat \<Rightarrow> ExecConfig"
  calls :: "call list"

text \<open>
  What the collaborators answer during one notification: the platform, and the errors
  (or nil) that the driver's \<open>Log\<close>, the container's \<open>ToDisk\<close> and the exec's
  \<open>CloseStreams\<close> return.
\<close>

record answers =
  GOOS :: string
  Log_returns :: "error option"
  ToDisk_returns :: "error option"
  CloseStreams_returns :: "error option"

definition record_call :: "call \<Rightarrow> daemon \<Rightarrow> daemon" where
  "record_call cl w = w\<lparr>calls := calls w @ [cl]\<rparr>"

definition modify :: "string \<Rightarrow> (Container \<Rightarrow> Container) \<Rightarrow> daemon \<Rightarrow> daemon" where
  "modify cid f w = w\<lparr>containers := (\<lambda>k. if k = cid then map_option f (containers w k)
                                             else containers w k)\<rparr>"

text \<open>
  Modelled from the spec: \<open>Container.Reset\<close> is declared outside the three files. The spec
  says of it that it "detaches and releases the LogDriver reference (sets it to none)",
  and the handler's comment that "Reset will set c.LogDriver to nil". The call is recorded
  and the field is cleared; the stream teardown itself is not modelled.
\<close>

definition Reset :: "string \<Rightarrow> bool \<Rightarrow> daemon \<Rightarrow> daemon" where
  "Reset cid keepStdin w =
     modify cid (\<lambda>c. c\<lparr>LogDriver := None\<rparr>) (record_call (CallReset cid keepStdin) w)"

definition stopMessage :: "StateInfo \<Rightarrow> string" where
  \<open>stopMessage e =
     ''{"type":"stop","exitCode":'' @ Itoa (uint (ExitCode e)) @
     '',"oomKilled":'' @ fmtBool (OOMKilled e) @ ''}''\<close>

definition dieAttributes :: "StateInfo \<Rightarrow> (string \<times> string) list" where
  "dieAttributes e = [(''exitCode'', Itoa (sint (ucast (ExitCode e) :: 64 word)))]"

text \<open>
  The \<open>StateExit\<close> case. The deferred \<open>Unlock\<close> runs on every way out, also when the call
  on a nil driver panics.
\<close>

definition exitCase ::
  "answers \<Rightarrow> string \<Rightarrow> StateInfo \<Rightarrow> Container \<Rightarrow> daemon \<Rightarrow> error option result \<times> daemon" where
  \<open>exitCase a cid e c w =
    (let w1 = record_call (CallWait cid) (record_call (CallLock cid) w);
         logDriver = LogDriver c;
         w2 = Reset cid False w1
     in case logDriver of
          None \<Rightarrow>
            (Panic ''invalid memory address or nil pointer dereference'',
             record_call (CallUnlock cid) w2)
        | Some d \<Rightarrow>
            (let w3 = record_call (CallLog d \<lparr>Line = stopMessage e, Source = ''event''\<rparr>) w2;
                 w4 = (case Log_returns a of
                         Some err \<Rightarrow>
                           record_call
                             (CallErrorf ''Failed to send 'stop' event to logging driver: %v''
                                [AErr err]) w3
                       | None \<Rightarrow> w3);
                 w5 = record_call (CallSetStopped cid e) w4;
                 w6 = record_call (CallLogContainerEventWithAttributes cid ''die'' (dieAttributes e)) w5;
                 w7 = record_call (CallCleanup cid) w6;
                 w8 = record_call (CallToDisk cid) w7
             in (Return (ToDisk_returns a), record_call (CallUnlock cid) w8)))\<close>

definition restartCase ::
  "answers \<Rightarrow> string \<Rightarrow> StateInfo \<Rightarrow> daemon \<Rightarrow> error option result \<times> daemon" where
  "restartCase a cid e w =
    (let w1 = Reset cid False (record_call (CallLock cid) w);
         w2 = modify cid (\<lambda>c. c\<lparr>RestartCount := RestartCount c + 1\<rparr>) w1;
         w3 = record_call (CallSetRestarting cid e) w2;
         w4 = record_call (CallLogContainerEventWithAttributes cid ''die'' (dieAttributes e)) w3;
         w5 = record_call (CallToDisk cid) w4
     in (Return (ToDisk_returns a), record_call (CallUnlock cid) w5))"

definition exitProcessCase ::
  "answers \<Rightarrow> string \<Rightarrow> StateInfo \<Rightarrow> Container \<Rightarrow> daemon \<Rightarrow> error option result \<times> daemon" where
  \<open>exitProcessCase a cid e c w =
    (let w1 = record_call (CallLock cid) w;
         w2 = (case ExecCommands c (ProcessID e) of
                 Some p \<Rightarrow>
                   (let w3 = w1\<lparr>execs := (execs w1)
                               (p := (execs w1 p)\<lparr>ExecExitCode := Some (ucast (ExitCode e)),
                                                  Running := False\<rparr>)\<rparr>;
                        w4 = record_call (CallExecCloseStreams p) (record_call (CallExecWait p) w3);
                        w5 = (case CloseStreams_returns a of
                                Some err \<Rightarrow>
                                  record_call (CallErrorf ''%s: %s'' [AStr (ID c), AErr err]) w4
                              | None \<Rightarrow> w4)
                    in modify cid
                         (\<lambda>c1. c1\<lparr>ExecCommands := (ExecCommands c1)(ExecID (execs w5 p) := None)\<rparr>)
                         w5)
               | None \<Rightarrow>
                   record_call
                     (CallWarnf ''Ignoring StateExitProcess for %v but no exec command found''
                        [AInfo e]) w1)
     in (Return None, record_call (CallUnlock cid) w2))\<close>

definition startCase ::
  "answers \<Rightarrow> string \<Rightarrow> StateInfo \<Rightarrow> daemon \<Rightarrow> error option result \<times> daemon" where
  "startCase a cid e w =
    (let w1 = record_call (CallSetRunning cid (ucast (Pid e)) (State e = StateStart)) w;
         w2 = modify cid (\<lambda>c. c\<lparr>HasBeenManuallyStopped := False\<rparr>) w1;
         w3 = record_call (CallToDisk cid) w2
     in case ToDisk_returns a of
          Some err \<Rightarrow> (Return (Some err), Reset cid False w3)
        | None \<Rightarrow> (Return None, record_call (CallLogContainerEvent cid ''start'') w3))"

definition StateChanged ::
  "answers \<Rightarrow> string \<Rightarrow> StateInfo \<Rightarrow> daemon \<Rightarrow> error option result \<times> daemon" where
  "StateChanged a cid e w =
    (case containers w cid of
       None \<Rightarrow> (Return (Some (Error (''no such container: '' @ cid))), w)
     | Some c \<Rightarrow>
         (case State e of
            StateOOM \<Rightarrow>
              if GOOS a = ''windows'' then
                (Return (Some (Error
                   ''Received StateOOM from libcontainerd on Windows. This should never happen.'')),
                 w)
              else (Return None, record_call (CallLogContainerEvent cid ''oom'') w)
          | StateExit \<Rightarrow> exitCase a cid e c w
          | StateRestart \<Rightarrow> restartCase a cid e w
          | StateExitProcess \<Rightarrow> exitProcessCase a cid e c w
          | StateStart \<Rightarrow> startCase a cid e w
          | StateRestore \<Rightarrow> startCase a cid e w
          | StatePause \<Rightarrow>
              (Return None,
               record_call (CallLogContainerEvent cid ''pause'') (modify cid (\<lambda>c. c\<lparr>Paused := True\<rparr>) w))
          | StateResume \<Rightarrow>
              (Return None,
               record_call (CallLogContainerEvent cid ''unpause'') (modify cid (\<lambda>c. c\<lparr>Paused := False\<rparr>) w))
          | StateOther s \<Rightarrow> (Return None, w)))"

text \<open>
  The messages handed to log drivers, read off the recorded calls.
\<close>

fun logged :: "call list \<Rightarrow> (nat \<times> Message) list" where
  "logged [] = []"
| "logged (CallLog d m # cs) = (d, m) # logged cs"
| "logged (_ # cs) = logged cs"


section \<open>Properties of the rate limiter\<close>

lemmas time_defs = IsZero_def Add_def Before_def

lemma Checks_Cons_fst: "fst (Checks (t # ts) r) = fst (Check t r) # fst (Checks ts (snd (Check t r)))"
  by (simp split: prod.splits)

lemma Checks_Cons_snd: "snd (Checks (t # ts) r) = snd (Checks ts (snd (Check t r)))"
  by (simp split: prod.splits)

lemma Checks_length: "length (fst (Checks ts r)) = length ts"
  by (induction ts arbitrary: r) (simp_all add: Checks_Cons_fst del: Checks.simps(2))

lemma Checks_nth:
  "i < length ts \<Longrightarrow>
   fst (Checks ts r) ! i = fst (Check (ts ! i) (snd (Checks (take i ts) r)))"
proof (induction ts arbitrary: r i)
  case Nil
  then show ?case by simp
next
  case (Cons t ts)
  show ?case
  proof (cases i)
    case 0
    then show ?thesis by (simp add: Checks_Cons_fst del: Checks.simps(2))
  next
    case (Suc j)
    with Cons.prems have "j < length ts" by simp
    from Cons.IH [OF this] Suc show ?thesis
      by (simp add: Checks_Cons_fst Checks_Cons_snd del: Checks.simps(2))
  qed
qed

lemma Checks_take_Suc:
  "i < length ts \<Longrightarrow>
   snd (Checks (take (Suc i) ts) r) = snd (Check (ts ! i) (snd (Checks (take i ts) r)))"
proof (induction ts arbitrary: r i)
  case Nil
  then show ?case by simp
next
  case (Cons t ts)
  show ?case
  proof (cases i)
    case 0
    then show ?thesis by (simp add: Checks_Cons_snd del: Checks.simps(2))
  next
    case (Suc j)
    with Cons.prems have "j < length ts" by simp
    from Cons.IH [OF this] Suc show ?thesis
      by (simp add: Checks_Cons_snd del: Checks.simps(2))
  qed
qed

lemma Check_report_nonzero:
  assumes "snd (fst (Check now r)) \<noteq> 0"
  shows "fst (fst (Check now r))"
    and "\<not> IsZero (begin r)"
    and "Before (Add (begin r) (Interval r)) now"
    and "snd (fst (Check now r)) = suppressed r"
    and "snd (Check now r) = r\<lparr>suppressed := 0, num := 1, begin := now\<rparr>"
  using assms by (auto simp: Check_def split: if_splits)

lemma Check_report_zero: "suppressed r = 0 \<Longrightarrow> snd (fst (Check now r)) = 0"
  by (simp add: Check_def)

lemma Check_unset_no_suppressed:
  "(IsZero (begin r) \<longrightarrow> suppressed r = 0) \<Longrightarrow>
   IsZero (begin (snd (Check now r))) \<longrightarrow> suppressed (snd (Check now r)) = 0"
  by (simp add: Check_def)

lemma Check_account:
  "(IsZero (begin r) \<longrightarrow> suppressed r = 0) \<Longrightarrow>
   snd (fst (Check now r)) + suppressed (snd (Check now r)) =
   suppressed r + (if fst (fst (Check now r)) then 0 else 1)"
  by (simp add: Check_def)

lemma Checks_account:
  "(IsZero (begin r) \<longrightarrow> suppressed r = 0) \<Longrightarrow>
   sum_list (map snd (fst (Checks ts r))) + suppressed (snd (Checks ts r)) =
   suppressed r + of_nat (length (filter (\<lambda>res. \<not> fst res) (fst (Checks ts r))))"
proof (induction ts arbitrary: r)
  case Nil
  then show ?case by simp
next
  case (Cons t ts)
  have inv: "IsZero (begin (snd (Check t r))) \<longrightarrow> suppressed (snd (Check t r)) = 0"
    using Cons.prems by (rule Check_unset_no_suppressed)
  have step: "snd (fst (Check t r)) + suppressed (snd (Check t r)) =
              suppressed r + (if fst (fst (Check t r)) then 0 else 1)"
    using Cons.prems by (rule Check_account)
  from Cons.IH [OF inv] step show ?case
    by (simp add: Checks_Cons_fst Checks_Cons_snd algebra_simps del: Checks.simps(2))
qed

text \<open>
  C4. A limiter built with \<open>Burst = 3\<close> and \<open>Interval = 1s\<close> (\<open>10^9\<close> nanoseconds)
  is checked six times. The first clock reading \<open>t1\<close> is a real one, not the zero instant;
  the next four are not after \<open>t1 + 1s\<close>; the sixth is after it. The first three calls
  are admitted, the next two are rejected, each of the five reports 0 suppressed, and the
  sixth is admitted and reports 2.
\<close>

theorem Check_burst3_interval1s:
  assumes "t1 \<noteq> 0"
    and "t2 \<le> t1 + 1000000000" and "t3 \<le> t1 + 1000000000"
    and "t4 \<le> t1 + 1000000000" and "t5 \<le> t1 + 1000000000"
    and "t1 + 1000000000 < t6"
  shows "fst (Checks [t1, t2, t3, t4, t5, t6]
                (unstarted 3 1000000000)) =
         [(True, 0), (True, 0), (True, 0), (False, 0), (False, 0), (True, 2)]"
  using assms by (simp add: Check_def time_defs word_sless_alt)

text \<open>
  C4 at the clock readings 5, 6, 7, 8, \<open>10^9 + 5\<close> and \<open>10^9 + 6\<close>.
\<close>

theorem Check_burst3_interval1s_witness:
  "fst (Checks [5, 6, 7, 8, 1000000005, 1000000006]
                (unstarted 3 1000000000)) =
         [(True, 0), (True, 0), (True, 0), (False, 0), (False, 0), (True, 2)]"
  using Check_burst3_interval1s [of 5 6 7 8 1000000005 1000000006] by simp

text \<open>
  C6. For every sequence of \<open>Check\<close> calls on a limiter as \<open>newRateLimit\<close> builds it:
  a call that reports a non-zero count is admitted, finds the interval started and over
  (\<open>begin + Interval\<close> before \<open>now\<close>), reports the suppressed count of the limiter
  before the call, and leaves a new interval (\<open>begin = now\<close>, \<open>num = 1\<close>,
  \<open>suppressed = 0\<close>); the call after it reports 0. So no count is reported
  mid-interval or on two calls in a row. No rejection is counted twice either: the counts
  reported so far plus the count still pending are the number of rejected calls
  (in 64-bit arithmetic).
\<close>

theorem Checks_suppressed_reported_once:
  fixes b :: "64 word" and d :: Duration and ts :: "Time list"
  shows
  "(\<forall>i<length ts.
      snd (fst (Checks ts (unstarted b d)) ! i) \<noteq> 0 \<longrightarrow>
        fst (fst (Checks ts (unstarted b d)) ! i) \<and>
        \<not> IsZero (begin (snd (Checks (take i ts) (unstarted b d)))) \<and>
        Before (Add (begin (snd (Checks (take i ts) (unstarted b d))))
                    (Interval (snd (Checks (take i ts) (unstarted b d)))))
               (ts ! i) \<and>
        snd (fst (Checks ts (unstarted b d)) ! i) =
          suppressed (snd (Checks (take i ts) (unstarted b d))) \<and>
        snd (Checks (take (Suc i) ts) (unstarted b d)) =
          (snd (Checks (take i ts) (unstarted b d)))
            \<lparr>suppressed := 0, num := 1, begin := ts ! i\<rparr> \<and>
        (Suc i < length ts \<longrightarrow>
           snd (fst (Checks ts (unstarted b d)) ! Suc i) = 0)) \<and>
   sum_list (map snd (fst (Checks ts (unstarted b d)))) +
     suppressed (snd (Checks ts (unstarted b d))) =
   of_nat (length (filter (\<lambda>res. \<not> fst res)
                     (fst (Checks ts (unstarted b d)))))"
proof -
  define R where "R = (unstarted b d)"
  have step: "fst (fst (Checks ts R) ! i) \<and>
        \<not> IsZero (begin (snd (Checks (take i ts) R))) \<and>
        Before (Add (begin (snd (Checks (take i ts) R))) (Interval (snd (Checks (take i ts) R)))) (ts ! i) \<and>
        snd (fst (Checks ts R) ! i) = suppressed (snd (Checks (take i ts) R)) \<and>
        snd (Checks (take (Suc i) ts) R) =
          (snd (Checks (take i ts) R))\<lparr>suppressed := 0, num := 1, begin := ts ! i\<rparr> \<and>
        (Suc i < length ts \<longrightarrow> snd (fst (Checks ts R) ! Suc i) = 0)"
    if i: "i < length ts" and nz: "snd (fst (Checks ts R) ! i) \<noteq> 0" for i
  proof -
    let ?pre = "snd (Checks (take i ts) R)"
    from nz i have nz': "snd (fst (Check (ts ! i) ?pre)) \<noteq> 0"
      by (simp add: Checks_nth)
    note facts = Check_report_nonzero [OF nz']
    have post: "snd (Checks (take (Suc i) ts) R) = ?pre\<lparr>suppressed := 0, num := 1, begin := ts ! i\<rparr>"
      using facts(5) i by (simp add: Checks_take_Suc)
    have next0: "snd (fst (Checks ts R) ! Suc i) = 0" if "Suc i < length ts"
    proof -
      have "suppressed (snd (Checks (take (Suc i) ts) R)) = 0"
        by (simp add: post)
      then have "snd (fst (Check (ts ! Suc i) (snd (Checks (take (Suc i) ts) R)))) = 0"
        by (rule Check_report_zero)
      with that show ?thesis by (simp add: Checks_nth)
    qed
    from facts(1-4) i post next0 show ?thesis
      by (simp add: Checks_nth)
  qed
  have inv: "IsZero (begin R) \<longrightarrow> suppressed R = 0"
    by (simp add: R_def)
  have acc: "sum_list (map snd (fst (Checks ts R))) + suppressed (snd (Checks ts R)) =
             of_nat (length (filter (\<lambda>res. \<not> fst res) (fst (Checks ts R))))"
    using Checks_account [OF inv, of ts] by (simp add: R_def)
  from step acc show ?thesis
    unfolding R_def by blast
qed

text \<open>
  C6 on a limiter with \<open>Burst = 1\<close> and \<open>Interval = 1s\<close>: the call at index 3 opens
  the second interval and reports the two rejections of the first; the rejection after it
  is pending.
\<close>

theorem Checks_suppressed_reported_once_witness:
  "fst (Checks [5, 6, 7, 1000000006, 1000000007] (unstarted 1 1000000000)) =
     [(True, 0), (False, 0), (False, 0), (True, 2), (False, 0)] \<and>
   snd (Checks (take 3 [5, 6, 7, 1000000006, 1000000007]) (unstarted 1 1000000000)) =
     \<lparr>Burst = 1, Interval = 1000000000, begin = 5, num = 1, suppressed = 2\<rparr> \<and>
   snd (Checks (take (Suc 3) [5, 6, 7, 1000000006, 1000000007]) (unstarted 1 1000000000)) =
     \<lparr>Burst = 1, Interval = 1000000000, begin = 1000000006, num = 1, suppressed = 0\<rparr> \<and>
   suppressed (snd (Checks [5, 6, 7, 1000000006, 1000000007] (unstarted 1 1000000000))) = 1"
  using Checks_suppressed_reported_once [of "[5, 6, 7, 1000000006, 1000000007]" 1 1000000000]
  by (simp add: Check_def time_defs word_sless_alt)

text \<open>
  C5, amended. Once an interval has started, a call whose clock reading is strictly after
  \<open>begin + Interval\<close> closes it: the call is admitted, reports the old suppressed count,
  and leaves \<open>num = 1\<close>, \<open>suppressed = 0\<close>, \<open>begin = now\<close>.
\<close>

theorem Check_new_interval:
  assumes "\<not> IsZero (begin r)" and "Before (Add (begin r) (Interval r)) now"
  shows "Check now r = ((True, suppressed r), r\<lparr>suppressed := 0, num := 1, begin := now\<rparr>)"
  using assms by (simp add: Check_def)

text \<open>
  C5, amended, one nanosecond after the end of an interval with two suppressed messages.
\<close>

theorem Check_new_interval_witness:
  "Check 1000000002 \<lparr>Burst = 3, Interval = 1000000000, begin = 1, num = 3, suppressed = 2\<rparr> =
     ((True, 2), \<lparr>Burst = 3, Interval = 1000000000, begin = 1000000002, num = 1, suppressed = 0\<rparr>)"
  using Check_new_interval
    [of "\<lparr>Burst = 3, Interval = 1000000000, begin = 1, num = 3, suppressed = 2\<rparr>" 1000000002]
  by (simp add: time_defs)

text \<open>
  C5 as stated fails at \<open>now = begin + Interval\<close>: \<open>Before\<close> is strict, so the call
  still belongs to the old interval. With the burst used up it is rejected, reports 0 and
  keeps \<open>begin\<close>.
\<close>

theorem Check_at_interval_end_counterexample:
  "Add 1 1000000000 \<le> 1000000001 \<and>
   Check 1000000001 \<lparr>Burst = 3, Interval = 1000000000, begin = 1, num = 3, suppressed = 2\<rparr> =
     ((False, 0), \<lparr>Burst = 3, Interval = 1000000000, begin = 1, num = 3, suppressed = 3\<rparr>)"
  by (simp add: Check_def time_defs word_sless_alt)

text \<open>
  C10. Whatever \<open>Burst\<close> is, zero and negative values included, the first call ever and
  every call that starts a new interval are admitted and counted as message 1. \<open>Burst\<close>
  is compared only on the other calls, where the call is admitted exactly when
  \<open>num < Burst\<close>.
\<close>

theorem Check_first_of_interval_admitted:
  "((IsZero (begin r) \<or> Before (Add (begin r) (Interval r)) now) \<longrightarrow>
      fst (fst (Check now (r\<lparr>Burst := b\<rparr>))) \<and> num (snd (Check now (r\<lparr>Burst := b\<rparr>))) = 1) \<and>
   (\<not> IsZero (begin r) \<and> \<not> Before (Add (begin r) (Interval r)) now \<longrightarrow>
      fst (fst (Check now (r\<lparr>Burst := b\<rparr>))) = (num r <s b))"
  by (simp add: Check_def)

text \<open>
  C10 with \<open>Burst = -5\<close> on the first call ever, and with \<open>Burst = 0\<close> on a call that
  starts a new interval and on one that does not.
\<close>

theorem Check_first_of_interval_admitted_witness:
  "fst (fst (Check 7 (unstarted (- 5) 1000000000))) \<and>
   fst (fst (Check 1000000009 \<lparr>Burst = 0, Interval = 1000000000, begin = 7, num = 1, suppressed = 4\<rparr>)) \<and>
   \<not> fst (fst (Check 8 \<lparr>Burst = 0, Interval = 1000000000, begin = 7, num = 1, suppressed = 4\<rparr>))"
  using Check_first_of_interval_admitted
      [of "(unstarted 3 1000000000)" 7 "- 5"]
    Check_first_of_interval_admitted
      [of "\<lparr>Burst = 3, Interval = 1000000000, begin = 7, num = 1, suppressed = 4\<rparr>" 1000000009 0]
    Check_first_of_interval_admitted
      [of "\<lparr>Burst = 3, Interval = 1000000000, begin = 7, num = 1, suppressed = 4\<rparr>" 8 0]
  by (simp add: time_defs word_sless_alt)

section \<open>Properties of the journald driver\<close>

text \<open>
  C3. A message tagged \<open>event\<close> is handed to \<open>journal.Send\<close> with priority
  \<open>PriWarning\<close> and the event-flagged variables \<open>eVars\<close>, whatever the limiter holds
  and whatever the clock reads; \<open>Log\<close> returns what \<open>Send\<close> returned and leaves the
  driver, its limiter included, as it was. \<open>PriWarning\<close> is neither of the priorities
  \<open>PriErr\<close> and \<open>PriInfo\<close> that container output is sent with.
\<close>

theorem Log_event_always_forwarded:
  assumes "Source msg = ''event''"
  shows "Log x now s msg tr =
           ((journal_Send x (Line msg) PriWarning (eVars s), s),
            tr @ [CallSend (Line msg) PriWarning (eVars s)]) \<and>
         PriWarning \<noteq> PriErr \<and> PriWarning \<noteq> PriInfo"
  using assms by (simp add: Log_def Send_def)

text \<open>
  C3 right after a rejected \<open>stdout\<close> message: the limiter has its burst of 1 used up and
  counts the rejection; the event sent next reaches the journal and the counters stay.
\<close>

theorem Log_event_always_forwarded_witness:
  "Log \<lparr>journal_Enabled = True, journal_Send = (\<lambda>l p v. None), ParseLogTag = (\<lambda>c. Inr []),
        ExtraAttributes = (\<lambda>c. Map.empty), Atoi = (\<lambda>t. Inr 0), ParseDuration = (\<lambda>t. Inr 0)\<rparr>
       7
       \<lparr>vars = Map.empty, eVars = [''DOCKER_EVENT'' \<mapsto> ''true''],
        rateLimit = Some \<lparr>Burst = 1, Interval = 1000000000, begin = 5, num = 1, suppressed = 0\<rparr>\<rparr>
       \<lparr>Line = ''out'', Source = ''stdout''\<rparr> [] =
     ((None, \<lparr>vars = Map.empty, eVars = [''DOCKER_EVENT'' \<mapsto> ''true''],
              rateLimit = Some \<lparr>Burst = 1, Interval = 1000000000, begin = 5, num = 1, suppressed = 1\<rparr>\<rparr>),
      []) \<and>
   Log \<lparr>journal_Enabled = True, journal_Send = (\<lambda>l p v. None), ParseLogTag = (\<lambda>c. Inr []),
        ExtraAttributes = (\<lambda>c. Map.empty), Atoi = (\<lambda>t. Inr 0), ParseDuration = (\<lambda>t. Inr 0)\<rparr>
       8
       \<lparr>vars = Map.empty, eVars = [''DOCKER_EVENT'' \<mapsto> ''true''],
        rateLimit = Some \<lparr>Burst = 1, Interval = 1000000000, begin = 5, num = 1, suppressed = 1\<rparr>\<rparr>
       \<lparr>Line = ''stop'', Source = ''event''\<rparr> [] =
     ((None, \<lparr>vars = Map.empty, eVars = [''DOCKER_EVENT'' \<mapsto> ''true''],
              rateLimit = Some \<lparr>Burst = 1, Interval = 1000000000, begin = 5, num = 1, suppressed = 1\<rparr>\<rparr>),
      [CallSend ''stop'' PriWarning [''DOCKER_EVENT'' \<mapsto> ''true'']])"
  using Log_event_always_forwarded
    [of "\<lparr>Line = ''stop'', Source = ''event''\<rparr>"
        "\<lparr>journal_Enabled = True, journal_Send = (\<lambda>l p v. None), ParseLogTag = (\<lambda>c. Inr []),
          ExtraAttributes = (\<lambda>c. Map.empty), Atoi = (\<lambda>t. Inr 0), ParseDuration = (\<lambda>t. Inr 0)\<rparr>"
        8
        "\<lparr>vars = Map.empty, eVars = [''DOCKER_EVENT'' \<mapsto> ''true''],
          rateLimit = Some \<lparr>Burst = 1, Interval = 1000000000, begin = 5, num = 1, suppressed = 1\<rparr>\<rparr>"
        "[]"]
  by (simp add: Log_def Check_def time_defs word_sless_alt)

lemma newRateLimit_result:
  "fst (newRateLimit x labels tr) =
     (case labels ''com.meteor.galaxy.log-burst'' of
        None \<Rightarrow> None
      | Some bl \<Rightarrow>
          (case labels ''com.meteor.galaxy.log-interval'' of
             None \<Rightarrow> None
           | Some il \<Rightarrow>
               (case Atoi x bl of
                  Inl err \<Rightarrow> None
                | Inr b \<Rightarrow>
                    (case ParseDuration x il of
                       Inl err \<Rightarrow> None
                     | Inr d \<Rightarrow>
                         Some (unstarted b d)))))"
  by (simp add: newRateLimit_def lookupLabel_def split: option.splits sum.splits)

lemma New_rateLimit:
  "fst (New x ctx tr) = Return (Inr s) \<Longrightarrow>
   rateLimit s = fst (newRateLimit x (ContainerLabels ctx) tr)"
  by (auto simp: New_def Let_def split: if_splits list.splits sum.splits prod.splits)

lemma Log_without_limiter:
  "rateLimit s = None \<Longrightarrow> Source msg \<noteq> ''event'' \<Longrightarrow>
   Log x now s msg tr =
     ((journal_Send x (Line msg) (if Source msg = ''stderr'' then PriErr else PriInfo) (vars s), s),
      tr @ [CallSend (Line msg) (if Source msg = ''stderr'' then PriErr else PriInfo) (vars s)])"
  by (simp add: Log_def forward_def Send_def)

text \<open>
  C7. Whenever \<open>New\<close> returns a driver, the driver has a limiter if and only if both
  labels are present and both parse; the limiter then has the parsed burst and interval
  and has not started. In every other case the field is nil, and \<open>Log\<close> forwards every
  message that is not an event: rate limiting does nothing.
\<close>

theorem New_rate_limiter_iff_both_labels_parse:
  assumes "fst (New x ctx tr) = Return (Inr s)"
  shows "(rateLimit s \<noteq> None \<longleftrightarrow>
           (\<exists>bl il b d.
              ContainerLabels ctx ''com.meteor.galaxy.log-burst'' = Some bl \<and>
              ContainerLabels ctx ''com.meteor.galaxy.log-interval'' = Some il \<and>
              Atoi x bl = Inr b \<and> ParseDuration x il = Inr d)) \<and>
         (\<forall>bl il b d.
              ContainerLabels ctx ''com.meteor.galaxy.log-burst'' = Some bl \<and>
              ContainerLabels ctx ''com.meteor.galaxy.log-interval'' = Some il \<and>
              Atoi x bl = Inr b \<and> ParseDuration x il = Inr d \<longrightarrow>
              rateLimit s = Some (unstarted b d)) \<and>
         (rateLimit s = None \<longrightarrow>
            (\<forall>now msg tr'. Source msg \<noteq> ''event'' \<longrightarrow>
               Log x now s msg tr' =
                 ((journal_Send x (Line msg) (if Source msg = ''stderr'' then PriErr else PriInfo) (vars s), s),
                  tr' @ [CallSend (Line msg) (if Source msg = ''stderr'' then PriErr else PriInfo) (vars s)])))"
proof -
  have rl: "rateLimit s = fst (newRateLimit x (ContainerLabels ctx) tr)"
    using assms by (rule New_rateLimit)
  have iff: "rateLimit s \<noteq> None \<longleftrightarrow>
           (\<exists>bl il b d.
              ContainerLabels ctx ''com.meteor.galaxy.log-burst'' = Some bl \<and>
              ContainerLabels ctx ''com.meteor.galaxy.log-interval'' = Some il \<and>
              Atoi x bl = Inr b \<and> ParseDuration x il = Inr d)"
    unfolding rl newRateLimit_result by (auto split: option.splits sum.splits)
  have made: "rateLimit s = Some (unstarted b d)"
    if "ContainerLabels ctx ''com.meteor.galaxy.log-burst'' = Some bl"
      and "ContainerLabels ctx ''com.meteor.galaxy.log-interval'' = Some il"
      and "Atoi x bl = Inr b" and "ParseDuration x il = Inr d" for bl il b d
    unfolding rl newRateLimit_result using that by simp
  have noop: "Log x now s msg tr' =
                 ((journal_Send x (Line msg) (if Source msg = ''stderr'' then PriErr else PriInfo) (vars s), s),
                  tr' @ [CallSend (Line msg) (if Source msg = ''stderr'' then PriErr else PriInfo) (vars s)])"
    if "rateLimit s = None" and "Source msg \<noteq> ''event''" for now msg tr'
    using that by (rule Log_without_limiter)
  from iff made noop show ?thesis by blast
qed

text \<open>
  C7 for a container labelled with burst \<open>3\<close> and interval \<open>1s\<close>, and for one that
  has the burst label only: the second driver has no limiter and forwards its output.
\<close>

theorem New_rate_limiter_iff_both_labels_parse_witness:
  "fst (New \<lparr>journal_Enabled = True, journal_Send = (\<lambda>l p v. None), ParseLogTag = (\<lambda>c. Inr ''web''),
          ExtraAttributes = (\<lambda>c. Map.empty),
          Atoi = (\<lambda>t. if t = ''3'' then Inr 3 else Inl (Error ''invalid syntax'')),
          ParseDuration = (\<lambda>t. if t = ''1s'' then Inr 1000000000 else Inl (Error ''invalid duration''))\<rparr>
        \<lparr>ContainerName = ''/web'', ContainerID = ''0123456789abcdef'',
          ContainerLabels = [''com.meteor.galaxy.log-burst'' \<mapsto> ''3'', ''com.meteor.galaxy.log-interval'' \<mapsto> ''1s'']\<rparr> []) =
     Return (Inr \<lparr>vars = [''CONTAINER_ID'' \<mapsto> ''0123456789ab'', ''CONTAINER_ID_FULL'' \<mapsto> ''0123456789abcdef'',
                  ''CONTAINER_NAME'' \<mapsto> ''web'', ''CONTAINER_TAG'' \<mapsto> ''web''],
          eVars = [''DOCKER_EVENT'' \<mapsto> ''true''] ++
                  [''CONTAINER_ID'' \<mapsto> ''0123456789ab'', ''CONTAINER_ID_FULL'' \<mapsto> ''0123456789abcdef'',
                  ''CONTAINER_NAME'' \<mapsto> ''web'', ''CONTAINER_TAG'' \<mapsto> ''web''],
          rateLimit = Some (unstarted 3 1000000000)\<rparr>) \<and>
   fst (New \<lparr>journal_Enabled = True, journal_Send = (\<lambda>l p v. None), ParseLogTag = (\<lambda>c. Inr ''web''),
          ExtraAttributes = (\<lambda>c. Map.empty),
          Atoi = (\<lambda>t. if t = ''3'' then Inr 3 else Inl (Error ''invalid syntax'')),
          ParseDuration = (\<lambda>t. if t = ''1s'' then Inr 1000000000 else Inl (Error ''invalid duration''))\<rparr>
        \<lparr>ContainerName = ''/web'', ContainerID = ''0123456789abcdef'',
          ContainerLabels = [''com.meteor.galaxy.log-burst'' \<mapsto> ''3'']\<rparr> []) =
     Return (Inr \<lparr>vars = [''CONTAINER_ID'' \<mapsto> ''0123456789ab'', ''CONTAINER_ID_FULL'' \<mapsto> ''0123456789abcdef'',
                  ''CONTAINER_NAME'' \<mapsto> ''web'', ''CONTAINER_TAG'' \<mapsto> ''web''],
          eVars = [''DOCKER_EVENT'' \<mapsto> ''true''] ++
                  [''CONTAINER_ID'' \<mapsto> ''0123456789ab'', ''CONTAINER_ID_FULL'' \<mapsto> ''0123456789abcdef'',
                  ''CONTAINER_NAME'' \<mapsto> ''web'', ''CONTAINER_TAG'' \<mapsto> ''web''],
          rateLimit = None\<rparr>) \<and>
   Log \<lparr>journal_Enabled = True, journal_Send = (\<lambda>l p v. None), ParseLogTag = (\<lambda>c. Inr ''web''),
          ExtraAttributes = (\<lambda>c. Map.empty),
          Atoi = (\<lambda>t. if t = ''3'' then Inr 3 else Inl (Error ''invalid syntax'')),
          ParseDuration = (\<lambda>t. if t = ''1s'' then Inr 1000000000 else Inl (Error ''invalid duration''))\<rparr>
       5
       \<lparr>vars = [''CONTAINER_ID'' \<mapsto> ''0123456789ab'', ''CONTAINER_ID_FULL'' \<mapsto> ''0123456789abcdef'',
                  ''CONTAINER_NAME'' \<mapsto> ''web'', ''CONTAINER_TAG'' \<mapsto> ''web''],
          eVars = [''DOCKER_EVENT'' \<mapsto> ''true''] ++
                  [''CONTAINER_ID'' \<mapsto> ''0123456789ab'', ''CONTAINER_ID_FULL'' \<mapsto> ''0123456789abcdef'',
                  ''CONTAINER_NAME'' \<mapsto> ''web'', ''CONTAINER_TAG'' \<mapsto> ''web''],
          rateLimit = None\<rparr>
       \<lparr>Line = ''out'', Source = ''stdout''\<rparr> [] =
     ((None, \<lparr>vars = [''CONTAINER_ID'' \<mapsto> ''0123456789ab'', ''CONTAINER_ID_FULL'' \<mapsto> ''0123456789abcdef'',
                  ''CONTAINER_NAME'' \<mapsto> ''web'', ''CONTAINER_TAG'' \<mapsto> ''web''],
          eVars = [''DOCKER_EVENT'' \<mapsto> ''true''] ++
                  [''CONTAINER_ID'' \<mapsto> ''0123456789ab'', ''CONTAINER_ID_FULL'' \<mapsto> ''0123456789abcdef'',
                  ''CONTAINER_NAME'' \<mapsto> ''web'', ''CONTAINER_TAG'' \<mapsto> ''web''],
          rateLimit = None\<rparr>),
      [CallSend ''out'' PriInfo
         [''CONTAINER_ID'' \<mapsto> ''0123456789ab'', ''CONTAINER_ID_FULL'' \<mapsto> ''0123456789abcdef'',
                  ''CONTAINER_NAME'' \<mapsto> ''web'', ''CONTAINER_TAG'' \<mapsto> ''web'']])"
  using New_rate_limiter_iff_both_labels_parse
    [of "\<lparr>journal_Enabled = True, journal_Send = (\<lambda>l p v. None), ParseLogTag = (\<lambda>c. Inr ''web''),
          ExtraAttributes = (\<lambda>c. Map.empty),
          Atoi = (\<lambda>t. if t = ''3'' then Inr 3 else Inl (Error ''invalid syntax'')),
          ParseDuration = (\<lambda>t. if t = ''1s'' then Inr 1000000000 else Inl (Error ''invalid duration''))\<rparr>"
        "\<lparr>ContainerName = ''/web'', ContainerID = ''0123456789abcdef'',
          ContainerLabels = [''com.meteor.galaxy.log-burst'' \<mapsto> ''3'', ''com.meteor.galaxy.log-interval'' \<mapsto> ''1s'']\<rparr>"
        "[]"
        "\<lparr>vars = [''CONTAINER_ID'' \<mapsto> ''0123456789ab'', ''CONTAINER_ID_FULL'' \<mapsto> ''0123456789abcdef'',
                  ''CONTAINER_NAME'' \<mapsto> ''web'', ''CONTAINER_TAG'' \<mapsto> ''web''],
          eVars = [''DOCKER_EVENT'' \<mapsto> ''true''] ++
                  [''CONTAINER_ID'' \<mapsto> ''0123456789ab'', ''CONTAINER_ID_FULL'' \<mapsto> ''0123456789abcdef'',
                  ''CONTAINER_NAME'' \<mapsto> ''web'', ''CONTAINER_TAG'' \<mapsto> ''web''],
          rateLimit = Some (unstarted 3 1000000000)\<rparr>"]
    New_rate_limiter_iff_both_labels_parse
    [of "\<lparr>journal_Enabled = True, journal_Send = (\<lambda>l p v. None), ParseLogTag = (\<lambda>c. Inr ''web''),
          ExtraAttributes = (\<lambda>c. Map.empty),
          Atoi = (\<lambda>t. if t = ''3'' then Inr 3 else Inl (Error ''invalid syntax'')),
          ParseDuration = (\<lambda>t. if t = ''1s'' then Inr 1000000000 else Inl (Error ''invalid duration''))\<rparr>"
        "\<lparr>ContainerName = ''/web'', ContainerID = ''0123456789abcdef'',
          ContainerLabels = [''com.meteor.galaxy.log-burst'' \<mapsto> ''3'']\<rparr>"
        "[]"
        "\<lparr>vars = [''CONTAINER_ID'' \<mapsto> ''0123456789ab'', ''CONTAINER_ID_FULL'' \<mapsto> ''0123456789abcdef'',
                  ''CONTAINER_NAME'' \<mapsto> ''web'', ''CONTAINER_TAG'' \<mapsto> ''web''],
          eVars = [''DOCKER_EVENT'' \<mapsto> ''true''] ++
                  [''CONTAINER_ID'' \<mapsto> ''0123456789ab'', ''CONTAINER_ID_FULL'' \<mapsto> ''0123456789abcdef'',
                  ''CONTAINER_NAME'' \<mapsto> ''web'', ''CONTAINER_TAG'' \<mapsto> ''web''],
          rateLimit = None\<rparr>"]
  by (simp add: New_def newRateLimit_def lookupLabel_def)

text \<open>
  C9. \<open>New\<close> reads \<open>name[0]\<close> and \<open>ContainerID[:12]\<close> without a length check. With a
  non-empty name and an id of at least 12 bytes it never panics. With an empty name it
  panics at \<open>name[0]\<close> once the journal is enabled; with a non-empty name and an id
  shorter than 12 bytes it panics at the slice once the journal is enabled and the tag
  parses. Those are the conditions under which the two reads are reached.
\<close>

theorem New_name_and_id_bounds:
  "(ContainerName ctx \<noteq> [] \<and> 12 \<le> length (ContainerID ctx) \<longrightarrow>
      (\<exists>v. fst (New x ctx tr) = Return v)) \<and>
   (ContainerName ctx = [] \<and> journal_Enabled x \<longrightarrow>
      fst (New x ctx tr) = Panic ''index out of range'') \<and>
   (ContainerName ctx \<noteq> [] \<and> length (ContainerID ctx) < 12 \<and>
    journal_Enabled x \<and> (\<exists>tag. ParseLogTag x ctx = Inr tag) \<longrightarrow>
      fst (New x ctx tr) = Panic ''slice bounds out of range'')"
  by (auto simp: New_def Let_def split: list.splits sum.splits prod.splits)

text \<open>
  C9 at an empty name, at an id of 11 bytes, and at a name and an id of 12 bytes that are
  in bounds.
\<close>

theorem New_name_and_id_bounds_witness:
  "fst (New \<lparr>journal_Enabled = True, journal_Send = (\<lambda>l p v. None), ParseLogTag = (\<lambda>c. Inr ''web''),
             ExtraAttributes = (\<lambda>c. Map.empty), Atoi = (\<lambda>t. Inr 0), ParseDuration = (\<lambda>t. Inr 0)\<rparr>
           \<lparr>ContainerName = '''', ContainerID = ''0123456789abcdef'', ContainerLabels = Map.empty\<rparr> []) =
     Panic ''index out of range'' \<and>
   fst (New \<lparr>journal_Enabled = True, journal_Send = (\<lambda>l p v. None), ParseLogTag = (\<lambda>c. Inr ''web''),
             ExtraAttributes = (\<lambda>c. Map.empty), Atoi = (\<lambda>t. Inr 0), ParseDuration = (\<lambda>t. Inr 0)\<rparr>
           \<lparr>ContainerName = ''/web'', ContainerID = ''0123456789a'', ContainerLabels = Map.empty\<rparr> []) =
     Panic ''slice bounds out of range'' \<and>
   (\<exists>v. fst (New \<lparr>journal_Enabled = True, journal_Send = (\<lambda>l p v. None), ParseLogTag = (\<lambda>c. Inr ''web''),
             ExtraAttributes = (\<lambda>c. Map.empty), Atoi = (\<lambda>t. Inr 0), ParseDuration = (\<lambda>t. Inr 0)\<rparr>
           \<lparr>ContainerName = ''/web'', ContainerID = ''0123456789ab'', ContainerLabels = Map.empty\<rparr> []) =
        Return v)"
  using New_name_and_id_bounds
    [of "\<lparr>ContainerName = '''', ContainerID = ''0123456789abcdef'', ContainerLabels = Map.empty\<rparr>"
        "\<lparr>journal_Enabled = True, journal_Send = (\<lambda>l p v. None), ParseLogTag = (\<lambda>c. Inr ''web''),
             ExtraAttributes = (\<lambda>c. Map.empty), Atoi = (\<lambda>t. Inr 0), ParseDuration = (\<lambda>t. Inr 0)\<rparr>"
        "[]"]
    New_name_and_id_bounds
    [of "\<lparr>ContainerName = ''/web'', ContainerID = ''0123456789a'', ContainerLabels = Map.empty\<rparr>"
        "\<lparr>journal_Enabled = True, journal_Send = (\<lambda>l p v. None), ParseLogTag = (\<lambda>c. Inr ''web''),
             ExtraAttributes = (\<lambda>c. Map.empty), Atoi = (\<lambda>t. Inr 0), ParseDuration = (\<lambda>t. Inr 0)\<rparr>"
        "[]"]
    New_name_and_id_bounds
    [of "\<lparr>ContainerName = ''/web'', ContainerID = ''0123456789ab'', ContainerLabels = Map.empty\<rparr>"
        "\<lparr>journal_Enabled = True, journal_Send = (\<lambda>l p v. None), ParseLogTag = (\<lambda>c. Inr ''web''),
             ExtraAttributes = (\<lambda>c. Map.empty), Atoi = (\<lambda>t. Inr 0), ParseDuration = (\<lambda>t. Inr 0)\<rparr>"
        "[]"]
  by simp

section \<open>Properties of the notification handler\<close>

lemma logged_append: "logged (xs @ ys) = logged xs @ logged ys"
  by (induction xs rule: logged.induct) simp_all

lemma calls_record_call: "calls (record_call cl w) = calls w @ [cl]"
  by (simp add: record_call_def)

lemma containers_record_call: "containers (record_call cl w) = containers w"
  by (simp add: record_call_def)

lemma calls_modify: "calls (modify cid f w) = calls w"
  by (simp add: modify_def)

lemma containers_modify:
  "containers (modify cid f w) cid = map_option f (containers w cid)"
  by (simp add: modify_def)

lemma calls_Reset: "calls (Reset cid k w) = calls w @ [CallReset cid k]"
  by (simp add: Reset_def calls_modify calls_record_call)

lemma containers_Reset:
  "containers (Reset cid k w) cid = map_option (\<lambda>c. c\<lparr>LogDriver := None\<rparr>) (containers w cid)"
  by (simp add: Reset_def containers_modify containers_record_call)

lemma sint_ucast_32_64: "sint (ucast (w :: 32 word) :: 64 word) = uint w"
proof -
  have lo: "- (2 ^ 63) \<le> uint w"
    by (rule order_trans [of _ 0]) simp_all
  have "uint w < 2 ^ 32"
    using uint_bounded [of w] by simp
  then have hi: "uint w < 2 ^ 63"
    by simp
  have "sint (ucast w :: 64 word) = signed_take_bit 63 (uint w)"
    by (simp add: signed_ucast_eq)
  also have "\<dots> = uint w"
    using lo hi by (rule signed_take_bit_int_eq_self)
  finally show ?thesis .
qed

lemmas daemon_simps =
  calls_record_call containers_record_call calls_modify containers_modify calls_Reset containers_Reset

text \<open>
  The \<open>Exit\<close> notification for a container that is in the registry and has a log driver
  \<open>d\<close>: the handler locks, waits, resets, and then calls \<open>Log\<close> on \<open>d\<close>, the driver
  read before the reset, with the \<open>event\<close>-tagged stop line; no other message is handed
  to a log driver during the notification; afterwards the container's \<open>LogDriver\<close>
  field is nil.
\<close>

lemma StateChanged_Exit_with_driver:
  assumes "containers w cid = Some c" and "State e = StateExit" and "LogDriver c = Some d"
  shows \<open>(\<exists>rest.
            calls (snd (StateChanged a cid e w)) =
              calls w @
              [CallLock cid, CallWait cid, CallReset cid False,
               CallLog d \<lparr>Line = ''{"type":"stop","exitCode":'' @ Itoa (uint (ExitCode e)) @
                                '',"oomKilled":'' @ (if OOMKilled e then ''true'' else ''false'') @ ''}'',
                          Source = ''event''\<rparr>] @ rest \<and>
            logged rest = []) \<and>
         logged (calls (snd (StateChanged a cid e w))) =
           logged (calls w) @
           [(d, \<lparr>Line = ''{"type":"stop","exitCode":'' @ Itoa (uint (ExitCode e)) @
                         '',"oomKilled":'' @ (if OOMKilled e then ''true'' else ''false'') @ ''}'',
                  Source = ''event''\<rparr>)] \<and>
         map_option LogDriver (containers (snd (StateChanged a cid e w)) cid) = Some None\<close>
proof -
  let ?m = \<open>\<lparr>Line = ''{"type":"stop","exitCode":'' @ Itoa (uint (ExitCode e)) @
                         '',"oomKilled":'' @ (if OOMKilled e then ''true'' else ''false'') @ ''}'',
                  Source = ''event''\<rparr>\<close>
  let ?rest = \<open>(case Log_returns a of
                  None \<Rightarrow> []
                | Some err \<Rightarrow>
                    [CallErrorf ''Failed to send 'stop' event to logging driver: %v'' [AErr err]]) @
               [CallSetStopped cid e,
                CallLogContainerEventWithAttributes cid ''die'' (dieAttributes e),
                CallCleanup cid, CallToDisk cid, CallUnlock cid]\<close>
  have tr: "calls (snd (StateChanged a cid e w)) =
              calls w @ [CallLock cid, CallWait cid, CallReset cid False, CallLog d ?m] @ ?rest"
    using assms
    by (simp add: StateChanged_def exitCase_def Let_def stopMessage_def fmtBool_def daemon_simps
        split: option.splits)
  have quiet: "logged ?rest = []"
    by (cases "Log_returns a") (simp_all add: logged_append)
  have lg: "logged (calls (snd (StateChanged a cid e w))) = logged (calls w) @ [(d, ?m)]"
  proof -
    have "logged (calls (snd (StateChanged a cid e w))) =
            logged (calls w) @
            logged [CallLock cid, CallWait cid, CallReset cid False, CallLog d ?m] @ logged ?rest"
      unfolding tr by (simp only: logged_append)
    also have "\<dots> = logged (calls w) @ [(d, ?m)]"
      unfolding quiet by simp
    finally show ?thesis .
  qed
  have fld: "map_option LogDriver (containers (snd (StateChanged a cid e w)) cid) = Some None"
    using assms
    by (simp add: StateChanged_def exitCase_def Let_def daemon_simps split: option.splits)
  from tr quiet lg fld show ?thesis by blast
qed

text \<open>
  C2. When the \<open>Log\<close> call for the stop message returns an error, the handler writes it
  to the diagnostic log and goes on: it sets the stopped status, emits \<open>die\<close> with the
  exit code as attribute, cleans up, persists, unlocks, and returns what \<open>ToDisk\<close>
  returned.
\<close>

theorem StateChanged_Exit_log_error_swallowed:
  assumes "containers w cid = Some c" and "State e = StateExit" and "LogDriver c = Some d"
    and "Log_returns a = Some err"
  shows \<open>fst (StateChanged a cid e w) = Return (ToDisk_returns a) \<and>
         calls (snd (StateChanged a cid e w)) =
           calls w @
           [CallLock cid, CallWait cid, CallReset cid False,
            CallLog d \<lparr>Line = stopMessage e, Source = ''event''\<rparr>,
            CallErrorf ''Failed to send 'stop' event to logging driver: %v'' [AErr err],
            CallSetStopped cid e,
            CallLogContainerEventWithAttributes cid ''die'' [(''exitCode'', Itoa (uint (ExitCode e)))],
            CallCleanup cid, CallToDisk cid, CallUnlock cid]\<close>
  using assms
  by (simp add: StateChanged_def exitCase_def Let_def dieAttributes_def sint_ucast_32_64 daemon_simps)

text \<open>
  C8. On \<open>Start\<close> or \<open>Restore\<close> for a container in the registry, the handler calls
  \<open>SetRunning\<close> with the pid and the flag \<open>State = StateStart\<close>, clears
  \<open>HasBeenManuallyStopped\<close> and persists. If \<open>ToDisk\<close> fails it resets the container
  and returns the error, and no \<open>start\<close> event is emitted; otherwise it emits \<open>start\<close>
  and returns nil.
\<close>

theorem StateChanged_Start_persists:
  assumes "containers w cid = Some c" and "State e = StateStart \<or> State e = StateRestore"
  shows "fst (StateChanged a cid e w) = Return (ToDisk_returns a) \<and>
         calls (snd (StateChanged a cid e w)) =
           calls w @
           [CallSetRunning cid (ucast (Pid e)) (State e = StateStart), CallToDisk cid] @
           (case ToDisk_returns a of
              Some err \<Rightarrow> [CallReset cid False]
            | None \<Rightarrow> [CallLogContainerEvent cid ''start'']) \<and>
         map_option HasBeenManuallyStopped (containers (snd (StateChanged a cid e w)) cid) =
           Some False"
  using assms
  by (auto simp: StateChanged_def startCase_def Let_def daemon_simps split: option.splits)

text \<open>
  Without a log driver the call on the captured nil reference panics after the reset; the
  deferred unlock still runs.
\<close>

lemma StateChanged_Exit_nil_driver:
  assumes "containers w cid = Some c" and "State e = StateExit" and "LogDriver c = None"
  shows "fst (StateChanged a cid e w) = Panic ''invalid memory address or nil pointer dereference'' \<and>
         calls (snd (StateChanged a cid e w)) =
           calls w @ [CallLock cid, CallWait cid, CallReset cid False, CallUnlock cid]"
  using assms by (simp add: StateChanged_def exitCase_def Let_def daemon_simps)

text \<open>
  The same for exit code 137 of a container killed for lack of memory.
\<close>

lemma StateChanged_Exit_with_driver_example:
  \<open>logged (calls (snd (StateChanged
      \<lparr>GOOS = ''linux'', Log_returns = None, ToDisk_returns = None, CloseStreams_returns = None\<rparr>
      ''c1''
      \<lparr>State = StateExit, Pid = 0, ExitCode = 137, ProcessID = [], OOMKilled = True\<rparr>
      \<lparr>containers = [''c1'' \<mapsto> \<lparr>ID = ''c1'', LogDriver = Some 4, RestartCount = 0, Paused = False,
                                  HasBeenManuallyStopped = False, ExecCommands = Map.empty\<rparr>],
       execs = (\<lambda>p. \<lparr>ExecID = [], ExecExitCode = None, Running = False\<rparr>),
       calls = []\<rparr>))) =
     [(4, \<lparr>Line = ''{"type":"stop","exitCode":137,"oomKilled":true}'', Source = ''event''\<rparr>)] \<and>
   map_option LogDriver (containers (snd (StateChanged
      \<lparr>GOOS = ''linux'', Log_returns = None, ToDisk_returns = None, CloseStreams_returns = None\<rparr>
      ''c1''
      \<lparr>State = StateExit, Pid = 0, ExitCode = 137, ProcessID = [], OOMKilled = True\<rparr>
      \<lparr>containers = [''c1'' \<mapsto> \<lparr>ID = ''c1'', LogDriver = Some 4, RestartCount = 0, Paused = False,
                                  HasBeenManuallyStopped = False, ExecCommands = Map.empty\<rparr>],
       execs = (\<lambda>p. \<lparr>ExecID = [], ExecExitCode = None, Running = False\<rparr>),
       calls = []\<rparr>)) ''c1'') = Some None\<close>
  using StateChanged_Exit_with_driver
    [of "\<lparr>containers = [''c1'' \<mapsto> \<lparr>ID = ''c1'', LogDriver = Some 4, RestartCount = 0, Paused = False,
                                  HasBeenManuallyStopped = False, ExecCommands = Map.empty\<rparr>],
          execs = (\<lambda>p. \<lparr>ExecID = [], ExecExitCode = None, Running = False\<rparr>),
          calls = []\<rparr>"
        "''c1''"
        "\<lparr>ID = ''c1'', LogDriver = Some 4, RestartCount = 0, Paused = False,
          HasBeenManuallyStopped = False, ExecCommands = Map.empty\<rparr>"
        "\<lparr>State = StateExit, Pid = 0, ExitCode = 137, ProcessID = [], OOMKilled = True\<rparr>"
        4
        "\<lparr>GOOS = ''linux'', Log_returns = None, ToDisk_returns = None, CloseStreams_returns = None\<rparr>"]
  by (simp add: Itoa_def digits.simps)

text \<open>
  C2 with a failing journal and a failing disk: the error returned is the disk's.
\<close>

theorem StateChanged_Exit_log_error_swallowed_witness:
  \<open>fst (StateChanged
      \<lparr>GOOS = ''linux'', Log_returns = Some (Error ''journal down''),
       ToDisk_returns = Some (Error ''disk full''), CloseStreams_returns = None\<rparr>
      ''c1''
      \<lparr>State = StateExit, Pid = 0, ExitCode = 2, ProcessID = [], OOMKilled = False\<rparr>
      \<lparr>containers = [''c1'' \<mapsto> \<lparr>ID = ''c1'', LogDriver = Some 4, RestartCount = 0, Paused = False,
                                  HasBeenManuallyStopped = False, ExecCommands = Map.empty\<rparr>],
       execs = (\<lambda>p. \<lparr>ExecID = [], ExecExitCode = None, Running = False\<rparr>),
       calls = []\<rparr>) = Return (Some (Error ''disk full'')) \<and>
   calls (snd (StateChanged
      \<lparr>GOOS = ''linux'', Log_returns = Some (Error ''journal down''),
       ToDisk_returns = Some (Error ''disk full''), CloseStreams_returns = None\<rparr>
      ''c1''
      \<lparr>State = StateExit, Pid = 0, ExitCode = 2, ProcessID = [], OOMKilled = False\<rparr>
      \<lparr>containers = [''c1'' \<mapsto> \<lparr>ID = ''c1'', LogDriver = Some 4, RestartCount = 0, Paused = False,
                                  HasBeenManuallyStopped = False, ExecCommands = Map.empty\<rparr>],
       execs = (\<lambda>p. \<lparr>ExecID = [], ExecExitCode = None, Running = False\<rparr>),
       calls = []\<rparr>)) =
     [CallLock ''c1'', CallWait ''c1'', CallReset ''c1'' False,
      CallLog 4 \<lparr>Line = ''{"type":"stop","exitCode":2,"oomKilled":false}'', Source = ''event''\<rparr>,
      CallErrorf ''Failed to send 'stop' event to logging driver: %v'' [AErr (Error ''journal down'')],
      CallSetStopped ''c1''
        \<lparr>State = StateExit, Pid = 0, ExitCode = 2, ProcessID = [], OOMKilled = False\<rparr>,
      CallLogContainerEventWithAttributes ''c1'' ''die'' [(''exitCode'', ''2'')],
      CallCleanup ''c1'', CallToDisk ''c1'', CallUnlock ''c1'']\<close>
  using StateChanged_Exit_log_error_swallowed
    [of "\<lparr>containers = [''c1'' \<mapsto> \<lparr>ID = ''c1'', LogDriver = Some 4, RestartCount = 0, Paused = False,
                                  HasBeenManuallyStopped = False, ExecCommands = Map.empty\<rparr>],
          execs = (\<lambda>p. \<lparr>ExecID = [], ExecExitCode = None, Running = False\<rparr>),
          calls = []\<rparr>"
        "''c1''"
        "\<lparr>ID = ''c1'', LogDriver = Some 4, RestartCount = 0, Paused = False,
          HasBeenManuallyStopped = False, ExecCommands = Map.empty\<rparr>"
        "\<lparr>State = StateExit, Pid = 0, ExitCode = 2, ProcessID = [], OOMKilled = False\<rparr>"
        4
        "\<lparr>GOOS = ''linux'', Log_returns = Some (Error ''journal down''),
          ToDisk_returns = Some (Error ''disk full''), CloseStreams_returns = None\<rparr>"
        "Error ''journal down''"]
  by (simp add: stopMessage_def fmtBool_def Itoa_def digits.simps)

text \<open>
  C8 for a restore whose \<open>ToDisk\<close> fails and for a start whose \<open>ToDisk\<close> succeeds.
\<close>

theorem StateChanged_Start_persists_witness:
  \<open>fst (StateChanged
      \<lparr>GOOS = ''linux'', Log_returns = None,
       ToDisk_returns = Some (Error ''disk full''), CloseStreams_returns = None\<rparr>
      ''c1''
      \<lparr>State = StateRestore, Pid = 4242, ExitCode = 0, ProcessID = [], OOMKilled = False\<rparr>
      \<lparr>containers = [''c1'' \<mapsto> \<lparr>ID = ''c1'', LogDriver = Some 4, RestartCount = 0, Paused = False,
                                  HasBeenManuallyStopped = True, ExecCommands = Map.empty\<rparr>],
       execs = (\<lambda>p. \<lparr>ExecID = [], ExecExitCode = None, Running = False\<rparr>),
       calls = []\<rparr>) = Return (Some (Error ''disk full'')) \<and>
   calls (snd (StateChanged
      \<lparr>GOOS = ''linux'', Log_returns = None,
       ToDisk_returns = Some (Error ''disk full''), CloseStreams_returns = None\<rparr>
      ''c1''
      \<lparr>State = StateRestore, Pid = 4242, ExitCode = 0, ProcessID = [], OOMKilled = False\<rparr>
      \<lparr>containers = [''c1'' \<mapsto> \<lparr>ID = ''c1'', LogDriver = Some 4, RestartCount = 0, Paused = False,
                                  HasBeenManuallyStopped = True, ExecCommands = Map.empty\<rparr>],
       execs = (\<lambda>p. \<lparr>ExecID = [], ExecExitCode = None, Running = False\<rparr>),
       calls = []\<rparr>)) =
     [CallSetRunning ''c1'' 4242 False, CallToDisk ''c1'', CallReset ''c1'' False] \<and>
   fst (StateChanged
      \<lparr>GOOS = ''linux'', Log_returns = None, ToDisk_returns = None, CloseStreams_returns = None\<rparr>
      ''c1''
      \<lparr>State = StateStart, Pid = 4242, ExitCode = 0, ProcessID = [], OOMKilled = False\<rparr>
      \<lparr>containers = [''c1'' \<mapsto> \<lparr>ID = ''c1'', LogDriver = Some 4, RestartCount = 0, Paused = False,
                                  HasBeenManuallyStopped = True, ExecCommands = Map.empty\<rparr>],
       execs = (\<lambda>p. \<lparr>ExecID = [], ExecExitCode = None, Running = False\<rparr>),
       calls = []\<rparr>) = Return None \<and>
   calls (snd (StateChanged
      \<lparr>GOOS = ''linux'', Log_returns = None, ToDisk_returns = None, CloseStreams_returns = None\<rparr>
      ''c1''
      \<lparr>State = StateStart, Pid = 4242, ExitCode = 0, ProcessID = [], OOMKilled = False\<rparr>
      \<lparr>containers = [''c1'' \<mapsto> \<lparr>ID = ''c1'', LogDriver = Some 4, RestartCount = 0, Paused = False,
                                  HasBeenManuallyStopped = True, ExecCommands = Map.empty\<rparr>],
       execs = (\<lambda>p. \<lparr>ExecID = [], ExecExitCode = None, Running = False\<rparr>),
       calls = []\<rparr>)) =
     [CallSetRunning ''c1'' 4242 True, CallToDisk ''c1'', CallLogContainerEvent ''c1'' ''start'']\<close>
  using StateChanged_Start_persists
    [of "\<lparr>containers = [''c1'' \<mapsto> \<lparr>ID = ''c1'', LogDriver = Some 4, RestartCount = 0, Paused = False,
                                  HasBeenManuallyStopped = True, ExecCommands = Map.empty\<rparr>],
          execs = (\<lambda>p. \<lparr>ExecID = [], ExecExitCode = None, Running = False\<rparr>),
          calls = []\<rparr>"
        "''c1''"
        "\<lparr>ID = ''c1'', LogDriver = Some 4, RestartCount = 0, Paused = False,
          HasBeenManuallyStopped = True, ExecCommands = Map.empty\<rparr>"
        "\<lparr>State = StateRestore, Pid = 4242, ExitCode = 0, ProcessID = [], OOMKilled = False\<rparr>"
        "\<lparr>GOOS = ''linux'', Log_returns = None,
          ToDisk_returns = Some (Error ''disk full''), CloseStreams_returns = None\<rparr>"]
    StateChanged_Start_persists
    [of "\<lparr>containers = [''c1'' \<mapsto> \<lparr>ID = ''c1'', LogDriver = Some 4, RestartCount = 0, Paused = False,
                                  HasBeenManuallyStopped = True, ExecCommands = Map.empty\<rparr>],
          execs = (\<lambda>p. \<lparr>ExecID = [], ExecExitCode = None, Running = False\<rparr>),
          calls = []\<rparr>"
        "''c1''"
        "\<lparr>ID = ''c1'', LogDriver = Some 4, RestartCount = 0, Paused = False,
          HasBeenManuallyStopped = True, ExecCommands = Map.empty\<rparr>"
        "\<lparr>State = StateStart, Pid = 4242, ExitCode = 0, ProcessID = [], OOMKilled = False\<rparr>"
        "\<lparr>GOOS = ''linux'', Log_returns = None, ToDisk_returns = None, CloseStreams_returns = None\<rparr>"]
  by simp


text \<open>
  C1 on the code. The claim is that every \<open>Exit\<close> notification for a container in the
  registry sends one stop message through the captured driver. The handler calls \<open>Log\<close>
  on the captured reference without a nil check, so for a container whose \<open>LogDriver\<close>
  is nil it panics after the reset and hands no message to any driver. The handler
  produces such containers itself: a \<open>Start\<close> whose \<open>ToDisk\<close> fails resets the
  container, and so does a first \<open>Exit\<close>; the \<open>Exit\<close> that follows panics, and after
  two \<open>Exit\<close> notifications only the first stop message has been sent.
\<close>

theorem StateChanged_Exit_nil_driver_panics:
  \<open>fst (StateChanged
      \<lparr>GOOS = ''linux'', Log_returns = None, ToDisk_returns = None, CloseStreams_returns = None\<rparr>
      ''c1''
      \<lparr>State = StateExit, Pid = 0, ExitCode = 137, ProcessID = [], OOMKilled = True\<rparr>
      (\<lparr>containers = [''c1'' \<mapsto> \<lparr>ID = ''c1'', LogDriver = None, RestartCount = 0, Paused = False,
                                  HasBeenManuallyStopped = False, ExecCommands = Map.empty\<rparr>],
       execs = (\<lambda>p. \<lparr>ExecID = [], ExecExitCode = None, Running = False\<rparr>),
       calls = []\<rparr>)) = Panic ''invalid memory address or nil pointer dereference'' \<and>
   logged (calls (snd (StateChanged
      \<lparr>GOOS = ''linux'', Log_returns = None, ToDisk_returns = None, CloseStreams_returns = None\<rparr>
      ''c1''
      \<lparr>State = StateExit, Pid = 0, ExitCode = 137, ProcessID = [], OOMKilled = True\<rparr>
      (\<lparr>containers = [''c1'' \<mapsto> \<lparr>ID = ''c1'', LogDriver = None, RestartCount = 0, Paused = False,
                                  HasBeenManuallyStopped = False, ExecCommands = Map.empty\<rparr>],
       execs = (\<lambda>p. \<lparr>ExecID = [], ExecExitCode = None, Running = False\<rparr>),
       calls = []\<rparr>)))) = [] \<and>
   fst (StateChanged
      \<lparr>GOOS = ''linux'', Log_returns = None, ToDisk_returns = Some (Error ''disk full''),
       CloseStreams_returns = None\<rparr>
      ''c1''
      \<lparr>State = StateStart, Pid = 4242, ExitCode = 0, ProcessID = [], OOMKilled = False\<rparr>
      (\<lparr>containers = [''c1'' \<mapsto> \<lparr>ID = ''c1'', LogDriver = Some 4, RestartCount = 0, Paused = False,
                                  HasBeenManuallyStopped = False, ExecCommands = Map.empty\<rparr>],
       execs = (\<lambda>p. \<lparr>ExecID = [], ExecExitCode = None, Running = False\<rparr>),
       calls = []\<rparr>)) = Return (Some (Error ''disk full'')) \<and>
   fst (StateChanged
      \<lparr>GOOS = ''linux'', Log_returns = None, ToDisk_returns = Some (Error ''disk full''),
       CloseStreams_returns = None\<rparr>
      ''c1''
      \<lparr>State = StateExit, Pid = 0, ExitCode = 137, ProcessID = [], OOMKilled = True\<rparr>
      (snd (StateChanged
      \<lparr>GOOS = ''linux'', Log_returns = None, ToDisk_returns = Some (Error ''disk full''),
       CloseStreams_returns = None\<rparr>
      ''c1''
      \<lparr>State = StateStart, Pid = 4242, ExitCode = 0, ProcessID = [], OOMKilled = False\<rparr>
      (\<lparr>containers = [''c1'' \<mapsto> \<lparr>ID = ''c1'', LogDriver = Some 4, RestartCount = 0, Paused = False,
                                  HasBeenManuallyStopped = False, ExecCommands = Map.empty\<rparr>],
       execs = (\<lambda>p. \<lparr>ExecID = [], ExecExitCode = None, Running = False\<rparr>),
       calls = []\<rparr>)))) = Panic ''invalid memory address or nil pointer dereference'' \<and>
   logged (calls (snd (StateChanged
      \<lparr>GOOS = ''linux'', Log_returns = None, ToDisk_returns = Some (Error ''disk full''),
       CloseStreams_returns = None\<rparr>
      ''c1''
      \<lparr>State = StateExit, Pid = 0, ExitCode = 137, ProcessID = [], OOMKilled = True\<rparr>
      (snd (StateChanged
      \<lparr>GOOS = ''linux'', Log_returns = None, ToDisk_returns = Some (Error ''disk full''),
       CloseStreams_returns = None\<rparr>
      ''c1''
      \<lparr>State = StateStart, Pid = 4242, ExitCode = 0, ProcessID = [], OOMKilled = False\<rparr>
      (\<lparr>containers = [''c1'' \<mapsto> \<lparr>ID = ''c1'', LogDriver = Some 4, RestartCount = 0, Paused = False,
                                  HasBeenManuallyStopped = False, ExecCommands = Map.empty\<rparr>],
       execs = (\<lambda>p. \<lparr>ExecID = [], ExecExitCode = None, Running = False\<rparr>),
       calls = []\<rparr>)))))) = [] \<and>
   fst (StateChanged
      \<lparr>GOOS = ''linux'', Log_returns = None, ToDisk_returns = None, CloseStreams_returns = None\<rparr>
      ''c1''
      \<lparr>State = StateExit, Pid = 0, ExitCode = 137, ProcessID = [], OOMKilled = True\<rparr>
      (\<lparr>containers = [''c1'' \<mapsto> \<lparr>ID = ''c1'', LogDriver = Some 4, RestartCount = 0, Paused = False,
                                  HasBeenManuallyStopped = False, ExecCommands = Map.empty\<rparr>],
       execs = (\<lambda>p. \<lparr>ExecID = [], ExecExitCode = None, Running = False\<rparr>),
       calls = []\<rparr>)) = Return None \<and>
   fst (StateChanged
      \<lparr>GOOS = ''linux'', Log_returns = None, ToDisk_returns = None, CloseStreams_returns = None\<rparr>
      ''c1''
      \<lparr>State = StateExit, Pid = 0, ExitCode = 137, ProcessID = [], OOMKilled = True\<rparr>
      (snd (StateChanged
      \<lparr>GOOS = ''linux'', Log_returns = None, ToDisk_returns = None, CloseStreams_returns = None\<rparr>
      ''c1''
      \<lparr>State = StateExit, Pid = 0, ExitCode = 137, ProcessID = [], OOMKilled = True\<rparr>
      (\<lparr>containers = [''c1'' \<mapsto> \<lparr>ID = ''c1'', LogDriver = Some 4, RestartCount = 0, Paused = False,
                                  HasBeenManuallyStopped = False, ExecCommands = Map.empty\<rparr>],
       execs = (\<lambda>p. \<lparr>ExecID = [], ExecExitCode = None, Running = False\<rparr>),
       calls = []\<rparr>)))) = Panic ''invalid memory address or nil pointer dereference'' \<and>
   logged (calls (snd (StateChanged
      \<lparr>GOOS = ''linux'', Log_returns = None, ToDisk_returns = None, CloseStreams_returns = None\<rparr>
      ''c1''
      \<lparr>State = StateExit, Pid = 0, ExitCode = 137, ProcessID = [], OOMKilled = True\<rparr>
      (snd (StateChanged
      \<lparr>GOOS = ''linux'', Log_returns = None, ToDisk_returns = None, CloseStreams_returns = None\<rparr>
      ''c1''
      \<lparr>State = StateExit, Pid = 0, ExitCode = 137, ProcessID = [], OOMKilled = True\<rparr>
      (\<lparr>containers = [''c1'' \<mapsto> \<lparr>ID = ''c1'', LogDriver = Some 4, RestartCount = 0, Paused = False,
                                  HasBeenManuallyStopped = False, ExecCommands = Map.empty\<rparr>],
       execs = (\<lambda>p. \<lparr>ExecID = [], ExecExitCode = None, Running = False\<rparr>),
       calls = []\<rparr>)))))) =
     [(4, \<lparr>Line = ''{"type":"stop","exitCode":137,"oomKilled":true}'', Source = ''event''\<rparr>)]\<close>
  by (simp add: StateChanged_def exitCase_def startCase_def Let_def Reset_def modify_def
      record_call_def stopMessage_def fmtBool_def Itoa_def digits.simps)

end
